theory Spec2Isabelle
  imports Main "HOL-Library.Word"
begin

section \<open>JavaScript strings and values\<close>

text \<open>
  A JavaScript string is modelled as a \<^typ>\<open>string\<close>; each \<^typ>\<open>char\<close> stands for one
  code unit below 256 (ASCII and Latin-1). Code units above 255 are outside the model.
  The regular expression class \<^verbatim>\<open>\D\<close> is the complement of the ASCII digits;
  \<^verbatim>\<open>String.prototype.trim\<close> removes the white space and line terminators of ECMAScript,
  of which TAB, LF, VT, FF, CR, SPACE and NBSP lie below 256.
\<close>

definition is_digit :: "char \<Rightarrow> bool" where
  "is_digit c = (c \<in> set ''0123456789'')"

definition is_js_space :: "char \<Rightarrow> bool" where
  "is_js_space c = (of_char c \<in> set [9, 10, 11, 12, 13, 32, 160 :: nat])"

definition trim :: "string \<Rightarrow> string" where
  "trim s = rev (dropWhile is_js_space (rev (dropWhile is_js_space s)))"

text \<open>
  \<^verbatim>\<open>toLowerCase\<close> on code units below 256: A to Z and the Latin-1 capitals
  (0xC0 to 0xDE without the multiplication sign 0xD7) move up by 32.
\<close>

definition toLowerCase_char :: "char \<Rightarrow> char" where
  "toLowerCase_char c =
     (let n = of_char c :: nat
      in if (65 \<le> n \<and> n \<le> 90) \<or> (192 \<le> n \<and> n \<le> 222 \<and> n \<noteq> 215)
         then char_of (n + 32) else c)"

definition toLowerCase :: "string \<Rightarrow> string" where
  "toLowerCase s = map toLowerCase_char s"

text \<open>
  The decimal rendering of a number, as a template literal and
  \<^verbatim>\<open>Number.prototype.toString\<close> produce it for an integer of magnitude below
  \<open>10\<^sup>2\<^sup>1\<close>; from there on JavaScript prints exponent notation. The model renders two
  kinds of numbers only, both far below that bound: the status code of a response, which
  the HTTP parser of Node keeps in 16 bits, and the value of an integer column (tinyint,
  smallint, int), which the database driver hands over as a number of at most 32 bits.
\<close>

definition digit_char :: "nat \<Rightarrow> char" where
  "digit_char d = ''0123456789'' ! d"

fun decimal_digits :: "nat \<Rightarrow> nat list" where
  "decimal_digits n = (if n < 10 then [n] else decimal_digits (n div 10) @ [n mod 10])"

definition nat_toString :: "nat \<Rightarrow> string" where
  "nat_toString n = map digit_char (decimal_digits n)"

definition number_toString :: "32 word \<Rightarrow> string" where
  "number_toString x =
     (if sint x < 0 then CHR ''-'' # nat_toString (nat (- sint x))
      else nat_toString (nat (sint x)))"

text \<open>
  A configuration value or a column value that the code tests for truthiness:
  \<^verbatim>\<open>undefined\<close>/\<^verbatim>\<open>null\<close> is \<open>None\<close>, and the empty string is falsy too.
\<close>

definition truthy :: "string option \<Rightarrow> bool" where
  "truthy v = (case v of None \<Rightarrow> False | Some s \<Rightarrow> s \<noteq> [])"

text \<open>Every failure of the code is a thrown \<^verbatim>\<open>Error\<close> object; the model keeps its message.\<close>

datatype js_error = Error string

section \<open>Phone normalisation\<close>

text \<open>
  direct-client.js, getPhoneNumberByEmail:
  \<^verbatim>\<open>
    let phoneNumber = record.cellPhone.trim();
    phoneNumber = phoneNumber.replace(/\D/g, "");
    if (phoneNumber.length === 10) { phoneNumber = "1" + phoneNumber; }
  \<close>
  sql-data.js has the same three steps
  (\<^verbatim>\<open>record.cellPhone.trim().replace(/\D/g, "")\<close>, then the length test).
\<close>

definition normalizePhone :: "string \<Rightarrow> string" where
  "normalizePhone cellPhone =
     (let phoneNumber = filter is_digit (trim cellPhone)
      in if length phoneNumber = 10 then ''1'' @ phoneNumber else phoneNumber)"

section \<open>The outside world of the two clients\<close>

text \<open>
  A schedule of the roster service and a user profile, with the fields the code reads.
\<close>

record schedule =
  sched_id :: string
  sched_name :: string

record user =
  displayName :: "string option"
  emailAddress :: "string option"

text \<open>
  A column value as the database driver hands it over: \<^verbatim>\<open>null\<close>, a string, or the
  number of an integer column (a bigint column comes as a string; columns of fractional
  types are outside the model). \<open>column_truthy\<close> is the JavaScript truthiness test and
  \<open>column_toString\<close> is \<^verbatim>\<open>.toString()\<close>, which cannot be called on \<^verbatim>\<open>null\<close>.
\<close>

datatype column_value = Null | Str string | Num "32 word"

fun column_truthy :: "column_value \<Rightarrow> bool" where
  "column_truthy Null = False"
| "column_truthy (Str s) = (s \<noteq> [])"
| "column_truthy (Num n) = (n \<noteq> 0)"

fun column_toString :: "column_value \<Rightarrow> string option" where
  "column_toString Null = None"
| "column_toString (Str s) = Some s"
| "column_toString (Num n) = Some (number_toString n)"

text \<open>A row of the phone directory table, under the aliases of the SELECT lists.\<close>

record directory_record =
  fullName :: "string option"
  extension :: column_value
  cellPhone :: "string option"
  primaryResponsibility :: "string option"
  backup :: "string option"
  email :: "string option"

text \<open>
  What \<^verbatim>\<open>fetch\<close> gives: a rejected promise, or a response with \<^verbatim>\<open>ok\<close>, \<^verbatim>\<open>status\<close>,
  \<^verbatim>\<open>statusText\<close> and a body. \<^verbatim>\<open>response.json()\<close> rejects the body with an error
  (\<open>InvalidJson\<close>), or parses it. A body that parses to \<^verbatim>\<open>null\<close> makes the first
  property read of the code throw the TypeError of the engine (\<open>NullBody\<close>, with that
  error). Every other parsed body is read by its fields (\<open>Json\<close>); a field that is
  missing reads as \<^verbatim>\<open>undefined\<close>, which is also what a property read gives on a body
  that is a number, a string or a boolean. The elements of a list in the body are taken
  to be objects of the documented shape: a list whose elements are \<^verbatim>\<open>null\<close> or of
  another type is outside the model.
\<close>

datatype 'a json_body = InvalidJson js_error | NullBody js_error | Json 'a

record 'a response =
  ok :: bool
  status :: "16 word"
  statusText :: string
  body :: "'a json_body"

datatype 'a fetch_result = Rejected js_error | Response "'a response"

text \<open>A parsed row of the CSV file, by its header names, and the states of that file.\<close>

record csv_row =
  csv_Full_Name :: "string option"
  csv_Ext :: "string option"
  csv_Cell_Phone :: "string option"
  csv_Primary_Responsibility :: "string option"
  csv_Backup :: "string option"
  csv_Email_Address :: "string option"

datatype temp_file = FileMissing | FileError js_error | FileRows "csv_row list"

text \<open>
  The services behind the client at the moment of one call. \<open>schedules_endpoint\<close>
  answers the schedule list request with \<^verbatim>\<open>data.values\<close> (\<open>None\<close> when it is missing
  or no array); \<open>onCalls_endpoint\<close> answers for a schedule id with the ids of
  \<^verbatim>\<open>onCallParticipants\<close> (\<open>None\<close> when the field is missing or null);
  \<open>user_endpoint\<close> answers for an account id. \<open>sql_connect\<close> is the error of
  \<^verbatim>\<open>sql.connect\<close>, if any; \<open>sql_rows_by_email\<close> gives the rows of the table whose
  EmailAddress the server finds equal to the parameter, in the server's order, or the
  error of the request; \<open>sql_all_rows\<close> gives the whole table; \<open>sql_pool_close\<close> is
  the error of \<^verbatim>\<open>pool.close()\<close>, if any. \<open>ops_jira_api_forceRefresh\<close> is the truthiness
  of \<^verbatim>\<open>api.default.forceRefresh\<close> of the module ops-jira-api.js, which is not part of the
  sources (\<open>None\<close> when the import or the property access throws). \<open>temp_file\<close> is the
  CSV file of the fallback: missing, unreadable or unparsable, or parsed into rows.
\<close>

record world =
  schedules_endpoint :: "schedule list option fetch_result"
  onCalls_endpoint :: "string \<Rightarrow> string list option fetch_result"
  user_endpoint :: "string \<Rightarrow> user fetch_result"
  sql_connect :: "js_error option"
  sql_rows_by_email :: "string \<Rightarrow> js_error + directory_record list"
  sql_all_rows :: "js_error + directory_record list"
  sql_pool_close :: "js_error option"
  ops_jira_api_forceRefresh :: "bool option"
  temp_file :: temp_file

text \<open>config.js, the fields the two clients read.\<close>

record config =
  jira_username :: "string option"
  jira_apiToken :: "string option"
  jira_cloudId :: "string option"
  jira_hostUrl :: "string option"
  jira_basePath :: "string option"
  sql_database :: "string option"
  sql_authMode :: string
  sql_username :: "string option"
  sql_password :: "string option"
  fallback_useTempFile :: bool
  defaultPhoneNumber :: string

section \<open>direct-client.js\<close>

text \<open>
  The module's \<^verbatim>\<open>cache\<close> object with its two slots, and the requests sent upstream so
  far (the call-count instrumentation of the model).
\<close>

record 'a cache_slot =
  data :: "'a option"
  expiry :: "int option"
  duration :: int

datatype upstream_call =
  HttpSchedules | HttpOnCalls string | HttpUser string | SqlConnect | SqlQuery string | SqlClose

record client_state =
  cache_schedules :: "schedule list cache_slot"
  cache_phoneData :: "directory_record list cache_slot"
  upstream :: "upstream_call list"

definition initial_state :: client_state where
  "initial_state =
     \<lparr>cache_schedules = \<lparr>data = None, expiry = None, duration = 15 * 60 * 1000\<rparr>,
      cache_phoneData = \<lparr>data = None, expiry = None, duration = 60 * 60 * 1000\<rparr>,
      upstream = []\<rparr>"

definition emit :: "upstream_call \<Rightarrow> client_state \<Rightarrow> client_state" where
  "emit c st = st\<lparr>upstream := upstream st @ [c]\<rparr>"

text \<open>
  \<^verbatim>\<open>cache.schedules.data && cache.schedules.expiry && now < cache.schedules.expiry\<close>:
  an array is truthy even when empty, a number is truthy unless it is 0.
\<close>

definition cached :: "'a cache_slot \<Rightarrow> int \<Rightarrow> 'a option" where
  "cached slot now =
     (case data slot of
        None \<Rightarrow> None
      | Some d \<Rightarrow>
          (case expiry slot of
             None \<Rightarrow> None
           | Some e \<Rightarrow> if e \<noteq> 0 \<and> now < e then Some d else None))"

text \<open>
  The three requests share one shape: \<^verbatim>\<open>await fetch\<close>, then
  \<^verbatim>\<open>if (!response.ok) throw new Error(`HTTP error ${status}: ${statusText}`)\<close>, then
  \<^verbatim>\<open>await response.json()\<close>, then the first property read of the parsed body
  (\<^verbatim>\<open>data.values\<close>, \<^verbatim>\<open>onCallData.onCallParticipants\<close>, \<^verbatim>\<open>userData.emailAddress\<close>),
  all inside the \<^verbatim>\<open>try\<close> block whose \<^verbatim>\<open>catch\<close> logs and rethrows.
\<close>

definition http_error :: "'a response \<Rightarrow> js_error" where
  "http_error r =
     Error (''HTTP error '' @ nat_toString (unat (status r)) @ '': '' @ statusText r)"

definition fetch_json :: "'a fetch_result \<Rightarrow> js_error + 'a" where
  "fetch_json r =
     (case r of
        Rejected e \<Rightarrow> Inl e
      | Response resp \<Rightarrow>
          if \<not> ok resp then Inl (http_error resp)
          else (case body resp of
                  InvalidJson e \<Rightarrow> Inl e
                | NullBody e \<Rightarrow> Inl e
                | Json d \<Rightarrow> Inr d))"

definition jira_config_complete :: "config \<Rightarrow> bool" where
  "jira_config_complete cfg =
     (truthy (jira_username cfg) \<and> truthy (jira_apiToken cfg) \<and> truthy (jira_cloudId cfg)
      \<and> truthy (jira_hostUrl cfg) \<and> truthy (jira_basePath cfg))"

definition getSchedules ::
  "config \<Rightarrow> world \<Rightarrow> int \<Rightarrow> client_state \<Rightarrow> (js_error + schedule list) \<times> client_state" where
  "getSchedules cfg w now st =
     (case cached (cache_schedules st) now of
        Some d \<Rightarrow> (Inr d, st)
      | None \<Rightarrow>
          if \<not> jira_config_complete cfg
          then (Inl (Error ''Incomplete Jira API configuration''), st)
          else
            (case fetch_json (schedules_endpoint w) of
               Inl e \<Rightarrow> (Inl e, emit HttpSchedules st)
             | Inr None \<Rightarrow>
                 (Inl (Error ''Invalid response format from Jira API''), emit HttpSchedules st)
             | Inr (Some vs) \<Rightarrow>
                 (Inr vs,
                  (emit HttpSchedules st)\<lparr>cache_schedules :=
                     (cache_schedules st)\<lparr>data := Some vs,
                        expiry := Some (now + duration (cache_schedules st))\<rparr>\<rparr>)))"

definition getTeamSchedule ::
  "config \<Rightarrow> world \<Rightarrow> int \<Rightarrow> string \<Rightarrow> client_state
     \<Rightarrow> (js_error + schedule option) \<times> client_state" where
  "getTeamSchedule cfg w now teamName st =
     (case getSchedules cfg w now st of
        (Inl e, st1) \<Rightarrow> (Inl e, st1)
      | (Inr schedules, st1) \<Rightarrow>
          if schedules = [] then (Inr None, st1)
          else (Inr (find (\<lambda>s. sched_name s = teamName) schedules), st1))"

text \<open>
  getOnCallUser sends the on-call request for the schedule and, for the first participant,
  the profile request. It reads no cache and checks no configuration.
\<close>

definition getOnCallUser ::
  "world \<Rightarrow> string \<Rightarrow> client_state \<Rightarrow> (js_error + user option) \<times> client_state" where
  "getOnCallUser w scheduleId st =
     (case fetch_json (onCalls_endpoint w scheduleId) of
        Inl e \<Rightarrow> (Inl e, emit (HttpOnCalls scheduleId) st)
      | Inr None \<Rightarrow> (Inr None, emit (HttpOnCalls scheduleId) st)
      | Inr (Some []) \<Rightarrow> (Inr None, emit (HttpOnCalls scheduleId) st)
      | Inr (Some (participant # rest)) \<Rightarrow>
          (case fetch_json (user_endpoint w participant) of
             Inl e \<Rightarrow> (Inl e, emit (HttpUser participant) (emit (HttpOnCalls scheduleId) st))
           | Inr userData \<Rightarrow>
               if \<not> truthy (emailAddress userData)
               then (Inr None, emit (HttpUser participant) (emit (HttpOnCalls scheduleId) st))
               else (Inr (Some userData),
                     emit (HttpUser participant) (emit (HttpOnCalls scheduleId) st))))"

text \<open>
  getPhoneNumberByEmail of direct-client.js. The query is
  \<^verbatim>\<open>SELECT TOP 1 FullName, CellPhone, EmailAddress ... WHERE EmailAddress = @email\<close>:
  of the matching rows the first one is kept (\<^verbatim>\<open>TOP 1\<close>, then \<^verbatim>\<open>recordset[0]\<close>) and
  only these three columns reach the code, so the extension is never seen. The \<^verbatim>\<open>finally\<close> block closes the pool whenever \<^verbatim>\<open>sql.connect\<close> gave
  one; an error of \<^verbatim>\<open>pool.close()\<close> replaces the outcome of the \<^verbatim>\<open>try\<close> block.
\<close>

definition sql_credentials_ok :: "config \<Rightarrow> bool" where
  "sql_credentials_ok cfg =
     (sql_authMode cfg = ''windows'' \<or> (truthy (sql_username cfg) \<and> truthy (sql_password cfg)))"

definition format_record :: "directory_record list \<Rightarrow> string option" where
  "format_record recordset =
     (case recordset of
        [] \<Rightarrow> None
      | record # _ \<Rightarrow>
          (case cellPhone record of
             None \<Rightarrow> None
           | Some raw \<Rightarrow> if raw = [] then None else Some (normalizePhone raw)))"

definition getPhoneNumberByEmail ::
  "config \<Rightarrow> world \<Rightarrow> string \<Rightarrow> client_state \<Rightarrow> (js_error + string option) \<times> client_state" where
  "getPhoneNumberByEmail cfg w em st =
     (if \<not> sql_credentials_ok cfg
      then (Inl (Error ''SQL authentication requires username and password''), st)
      else if \<not> truthy (sql_database cfg)
      then (Inl (Error ''SQL database name is required''), st)
      else
        (case sql_connect w of
           Some e \<Rightarrow> (Inl e, emit SqlConnect st)
         | None \<Rightarrow>
             (let outcome =
                    (case sql_rows_by_email w em of
                       Inl e \<Rightarrow> Inl e
                     | Inr recordset \<Rightarrow> Inr (format_record recordset));
                  st1 = emit SqlClose (emit (SqlQuery em) (emit SqlConnect st))
              in case sql_pool_close w of
                   Some e \<Rightarrow> (Inl e, st1)
                 | None \<Rightarrow> (outcome, st1))))"

text \<open>
  getTeamOnCallPhoneNumber: each of the three steps either throws (the \<^verbatim>\<open>catch\<close> block
  logs and rethrows the same error) or gives a value that is tested for falsiness.
\<close>

definition getTeamOnCallPhoneNumber ::
  "config \<Rightarrow> world \<Rightarrow> int \<Rightarrow> string \<Rightarrow> client_state \<Rightarrow> (js_error + string) \<times> client_state" where
  "getTeamOnCallPhoneNumber cfg w now teamName st =
     (case getTeamSchedule cfg w now teamName st of
        (Inl e, st1) \<Rightarrow> (Inl e, st1)
      | (Inr None, st1) \<Rightarrow> (Inl (Error (''No schedule found for team: '' @ teamName)), st1)
      | (Inr (Some schedule), st1) \<Rightarrow>
          (case getOnCallUser w (sched_id schedule) st1 of
             (Inl e, st2) \<Rightarrow> (Inl e, st2)
           | (Inr None, st2) \<Rightarrow>
               (Inl (Error (''No on-call user with email found for team: '' @ teamName)), st2)
           | (Inr (Some u), st2) \<Rightarrow>
               (case emailAddress u of
                  None \<Rightarrow>
                    (Inl (Error (''No on-call user with email found for team: '' @ teamName)), st2)
                | Some em \<Rightarrow>
                    if em = []
                    then (Inl (Error (''No on-call user with email found for team: '' @ teamName)),
                          st2)
                    else
                      (case getPhoneNumberByEmail cfg w em st2 of
                         (Inl e, st3) \<Rightarrow> (Inl e, st3)
                       | (Inr None, st3) \<Rightarrow>
                           (Inl (Error (''No phone number found for email: '' @ em)), st3)
                       | (Inr (Some phoneNumber), st3) \<Rightarrow>
                           if phoneNumber = []
                           then (Inl (Error (''No phone number found for email: '' @ em)), st3)
                           else (Inr phoneNumber, st3)))))"

definition clearCaches :: "client_state \<Rightarrow> bool \<times> client_state" where
  "clearCaches st =
     (True,
      st\<lparr>cache_schedules := (cache_schedules st)\<lparr>data := None, expiry := None\<rparr>,
         cache_phoneData := (cache_phoneData st)\<lparr>data := None, expiry := None\<rparr>\<rparr>)"

definition isHealthy :: "config \<Rightarrow> world \<Rightarrow> int \<Rightarrow> client_state \<Rightarrow> bool \<times> client_state" where
  "isHealthy cfg w now st =
     (case getSchedules cfg w now st of
        (Inl e, st1) \<Rightarrow> (False, st1)
      | (Inr schedules, st1) \<Rightarrow> (length schedules > 0, st1))"

definition closeSqlConnections :: "client_state \<Rightarrow> bool \<times> client_state" where
  "closeSqlConnections st = (True, st)"

section \<open>server.js: the caller of the entry point\<close>

definition TEAM_MAPPING :: "(string \<times> string) list" where
  "TEAM_MAPPING =
     [(''helpdesk'', ''Help-Desk-schedule''), (''network'', ''Network-schedule''),
      (''ibmi'', ''IBM-i-schedule''), (''windows'', ''Windows-schedule''),
      (''sql'', ''SQL-schedule''), (''sharepoint'', ''SharePoint-schedule'')]"







section \<open>sql-data.js\<close>

text \<open>
  The module variables: the directory snapshot with its expiry, the connection pool
  (\<open>True\<close> when it is initialised) and the local force-refresh flag.
\<close>

record sql_data_state =
  phoneDataCache :: "directory_record list option"
  phoneDataExpiry :: "int option"
  pool :: bool
  forceRefresh :: bool

definition sql_data_initial :: sql_data_state where
  "sql_data_initial =
     \<lparr>phoneDataCache = None, phoneDataExpiry = None, pool = False, forceRefresh = False\<rparr>"

definition CACHE_DURATION :: int where
  "CACHE_DURATION = 60 * 60 * 1000"

definition initSqlPool :: "world \<Rightarrow> sql_data_state \<Rightarrow> bool \<times> sql_data_state" where
  "initSqlPool w st =
     (if \<not> pool st
      then (case sql_connect w of Some e \<Rightarrow> (False, st) | None \<Rightarrow> (True, st\<lparr>pool := True\<rparr>))
      else (True, st))"

text \<open>\<^verbatim>\<open>record["Ext"] || ""\<close> and its five siblings.\<close>

definition or_empty :: "string option \<Rightarrow> string" where
  "or_empty v = (case v of None \<Rightarrow> [] | Some s \<Rightarrow> s)"

definition transform_csv :: "csv_row \<Rightarrow> directory_record" where
  "transform_csv r =
     \<lparr>fullName = Some (or_empty (csv_Full_Name r)),
      extension = Str (or_empty (csv_Ext r)),
      cellPhone = Some (or_empty (csv_Cell_Phone r)),
      primaryResponsibility = Some (or_empty (csv_Primary_Responsibility r)),
      backup = Some (or_empty (csv_Backup r)),
      email = Some (or_empty (csv_Email_Address r))\<rparr>"

text \<open>
  fetchPhoneData, second half: the \<^verbatim>\<open>try\<close> block around the database. Incomplete
  configuration returns \<^verbatim>\<open>[]\<close>; a pool that cannot be initialised throws inside the
  block; every error inside the block is caught and \<^verbatim>\<open>[]\<close> is returned.
\<close>

definition fetchPhoneData_sql ::
  "config \<Rightarrow> world \<Rightarrow> sql_data_state \<Rightarrow> directory_record list \<times> sql_data_state" where
  "fetchPhoneData_sql cfg w st =
     (if \<not> truthy (sql_username cfg) \<or> \<not> truthy (sql_password cfg)
         \<or> \<not> truthy (sql_database cfg)
      then ([], st)
      else
        (case initSqlPool w st of
           (False, st1) \<Rightarrow> ([], st1)
         | (True, st1) \<Rightarrow>
             (case sql_all_rows w of
                Inl e \<Rightarrow> ([], st1)
              | Inr recordset \<Rightarrow> (recordset, st1))))"

text \<open>
  fetchPhoneData, first half: the CSV file when it is configured; a missing file and an
  error while reading it both fall through to the database.
\<close>

definition fetchPhoneData ::
  "config \<Rightarrow> world \<Rightarrow> sql_data_state \<Rightarrow> directory_record list \<times> sql_data_state" where
  "fetchPhoneData cfg w st =
     (if fallback_useTempFile cfg
      then (case temp_file w of
              FileRows records \<Rightarrow> (map transform_csv records, st)
            | FileMissing \<Rightarrow> fetchPhoneData_sql cfg w st
            | FileError e \<Rightarrow> fetchPhoneData_sql cfg w st)
      else fetchPhoneData_sql cfg w st)"

text \<open>
  ensurePhoneDataLoaded first copies the flag of ops-jira-api.js into the local one (a
  failed import keeps the local flag), then tests
  \<^verbatim>\<open>!_forceRefresh && phoneDataCache && phoneDataExpiry && now < phoneDataExpiry\<close>,
  and otherwise resets the flag, fetches and stores the snapshot with its expiry.
\<close>

definition read_forceRefresh :: "world \<Rightarrow> sql_data_state \<Rightarrow> sql_data_state" where
  "read_forceRefresh w st =
     (case ops_jira_api_forceRefresh w of
        None \<Rightarrow> st
      | Some b \<Rightarrow> st\<lparr>forceRefresh := b\<rparr>)"

definition snapshot_fresh :: "int \<Rightarrow> sql_data_state \<Rightarrow> bool" where
  "snapshot_fresh now st =
     (\<not> forceRefresh st \<and> phoneDataCache st \<noteq> None
      \<and> (case phoneDataExpiry st of None \<Rightarrow> False | Some e \<Rightarrow> e \<noteq> 0 \<and> now < e))"

definition ensurePhoneDataLoaded ::
  "config \<Rightarrow> world \<Rightarrow> int \<Rightarrow> sql_data_state \<Rightarrow> sql_data_state" where
  "ensurePhoneDataLoaded cfg w now st =
     (if snapshot_fresh now (read_forceRefresh w st) then read_forceRefresh w st
      else
        (case fetchPhoneData cfg w ((read_forceRefresh w st)\<lparr>forceRefresh := False\<rparr>) of
           (rows, st1) \<Rightarrow>
             st1\<lparr>phoneDataCache := Some rows,
                 phoneDataExpiry := Some (now + CACHE_DURATION)\<rparr>))"

text \<open>
  getPhoneNumberByEmail of sql-data.js; the result is the argument given to the callback.
  \<^verbatim>\<open>find\<close> takes the first row whose email is truthy and equal to the wanted one after
  \<^verbatim>\<open>toLowerCase\<close> on both sides.
\<close>

definition email_matches :: "string \<Rightarrow> directory_record \<Rightarrow> bool" where
  "email_matches em row =
     (case email row of
        None \<Rightarrow> False
      | Some e \<Rightarrow> e \<noteq> [] \<and> toLowerCase e = toLowerCase em)"

definition phone_of_record :: "config \<Rightarrow> directory_record \<Rightarrow> string option" where
  "phone_of_record cfg record =
     (if truthy (cellPhone record)
      then Some (normalizePhone (or_empty (cellPhone record)))
      else if column_truthy (extension record)
      then (if trim (or_empty (column_toString (extension record))) \<noteq> []
            then Some (defaultPhoneNumber cfg)
            else None)
      else None)"

definition sql_getPhoneNumberByEmail ::
  "config \<Rightarrow> world \<Rightarrow> int \<Rightarrow> string \<Rightarrow> sql_data_state \<Rightarrow> string option \<times> sql_data_state" where
  "sql_getPhoneNumberByEmail cfg w now em st =
     (let st1 = ensurePhoneDataLoaded cfg w now st
      in case phoneDataCache st1 of
           None \<Rightarrow> (None, st1)
         | Some rows \<Rightarrow>
             if rows = [] then (None, st1)
             else (case find (email_matches em) rows of
                     None \<Rightarrow> (None, st1)
                   | Some record \<Rightarrow> (phone_of_record cfg record, st1)))"

section \<open>Sequences of calls\<close>

text \<open>
  The functions the module exports, and the state after a sequence of calls from the
  state the module starts in; every call meets its own world and clock.
\<close>

datatype client_call =
  CallGetTeamOnCallPhoneNumber string
| CallGetTeamSchedule string
| CallGetSchedules
| CallGetOnCallUser string
| CallGetPhoneNumberByEmail string
| CallClearCaches
| CallIsHealthy
| CallCloseSqlConnections

fun run_call :: "config \<Rightarrow> world \<Rightarrow> int \<Rightarrow> client_call \<Rightarrow> client_state \<Rightarrow> client_state" where
  "run_call cfg w now (CallGetTeamOnCallPhoneNumber t) st =
     snd (getTeamOnCallPhoneNumber cfg w now t st)"
| "run_call cfg w now (CallGetTeamSchedule t) st = snd (getTeamSchedule cfg w now t st)"
| "run_call cfg w now CallGetSchedules st = snd (getSchedules cfg w now st)"
| "run_call cfg w now (CallGetOnCallUser i) st = snd (getOnCallUser w i st)"
| "run_call cfg w now (CallGetPhoneNumberByEmail em) st = snd (getPhoneNumberByEmail cfg w em st)"
| "run_call cfg w now CallClearCaches st = snd (clearCaches st)"
| "run_call cfg w now CallIsHealthy st = snd (isHealthy cfg w now st)"
| "run_call cfg w now CallCloseSqlConnections st = snd (closeSqlConnections st)"

fun run_calls :: "config \<Rightarrow> (world \<times> int \<times> client_call) list \<Rightarrow> client_state \<Rightarrow> client_state" where
  "run_calls cfg [] st = st"
| "run_calls cfg ((w, now, c) # rest) st = run_calls cfg rest (run_call cfg w now c st)"

section \<open>A concrete deployment\<close>

text \<open>
  The configuration of the README with SQL Server authentication, a roster with the
  schedules of \<open>TEAM_MAPPING\<close>, one participant on call and her row in the directory.
\<close>

definition example_config :: config where
  "example_config =
     \<lparr>jira_username = Some ''svc'', jira_apiToken = Some ''token'', jira_cloudId = Some ''cloud'',
      jira_hostUrl = Some ''https://api.example.com'', jira_basePath = Some ''rest/servicedeskapi'',
      sql_database = Some ''Directory'', sql_authMode = ''sql'',
      sql_username = Some ''reader'', sql_password = Some ''secret'',
      fallback_useTempFile = False, defaultPhoneNumber = ''15555555555''\<rparr>"

definition ok_response :: "'a \<Rightarrow> 'a fetch_result" where
  "ok_response d = Response \<lparr>ok = True, status = 200, statusText = ''OK'', body = Json d\<rparr>"

definition example_schedules :: "schedule list" where
  "example_schedules =
     [\<lparr>sched_id = ''s-1'', sched_name = ''Network-schedule''\<rparr>,
      \<lparr>sched_id = ''s-2'', sched_name = ''Help-Desk-schedule''\<rparr>]"

definition example_record :: directory_record where
  "example_record =
     \<lparr>fullName = Some ''Alice Example'', extension = Str ''4321'',
      cellPhone = Some ''555-123-4567'', primaryResponsibility = Some ''Help Desk'',
      backup = None, email = Some ''a@x.com''\<rparr>"

definition example_world :: world where
  "example_world =
     \<lparr>schedules_endpoint = ok_response (Some example_schedules),
      onCalls_endpoint = (\<lambda>i. ok_response (Some [''acct-7''])),
      user_endpoint = (\<lambda>a. ok_response \<lparr>displayName = Some ''Alice Example'',
                                         emailAddress = Some ''a@x.com''\<rparr>),
      sql_connect = None,
      sql_rows_by_email = (\<lambda>em. Inr [example_record]),
      sql_all_rows = Inr [example_record],
      sql_pool_close = None,
      ops_jira_api_forceRefresh = None,
      temp_file = FileMissing\<rparr>"

text \<open>Variations of that deployment.\<close>

definition extension_only_record :: directory_record where
  "extension_only_record = example_record\<lparr>cellPhone := None\<rparr>"

definition world_extension_only :: world where
  "world_extension_only =
     example_world\<lparr>sql_rows_by_email := (\<lambda>em. Inr [extension_only_record]),
                   sql_all_rows := Inr [extension_only_record]\<rparr>"

definition world_uk_number :: world where
  "world_uk_number =
     example_world\<lparr>sql_rows_by_email :=
       (\<lambda>em. Inr [example_record\<lparr>cellPhone := Some ''+44 20 7946 0958''\<rparr>])\<rparr>"



definition world_roster_down :: world where
  "world_roster_down =
     example_world\<lparr>schedules_endpoint :=
       Response \<lparr>ok = False, status = 503, statusText = ''Service Unavailable'',
                 body = InvalidJson (Error ''Unexpected token'')\<rparr>\<rparr>"

definition world_empty_roster :: world where
  "world_empty_roster = example_world\<lparr>schedules_endpoint := ok_response (Some [])\<rparr>"

definition world_query_fails :: world where
  "world_query_fails =
     example_world\<lparr>sql_rows_by_email := (\<lambda>em. Inl (Error ''Invalid object name'')),
                   sql_all_rows := Inl (Error ''Invalid object name'')\<rparr>"


definition config_without_database :: config where
  "config_without_database = example_config\<lparr>sql_database := None\<rparr>"

text \<open>The state after one successful lookup at time 1000.\<close>

definition state_after_first_call :: client_state where
  "state_after_first_call =
     snd (getTeamOnCallPhoneNumber example_config example_world 1000 ''Help-Desk-schedule''
            initial_state)"

text \<open>The phoneData slot as the module creates it: no data, no expiry.\<close>

definition phoneData_empty :: "client_state \<Rightarrow> bool" where
  "phoneData_empty st = (data (cache_phoneData st) = None \<and> expiry (cache_phoneData st) = None)"

definition world_connect_fails :: world where
  "world_connect_fails = example_world\<lparr>sql_connect := Some (Error ''Login failed'')\<rparr>"

section \<open>Facts about strings\<close>

lemma space_not_digit: "is_js_space c \<Longrightarrow> \<not> is_digit c"
  by (auto simp: is_js_space_def is_digit_def)

lemma filter_dropWhile_disjoint:
  assumes "\<And>x. Q x \<Longrightarrow> \<not> P x"
  shows "filter P (dropWhile Q xs) = filter P xs"
  using assms by (induction xs) auto

lemma filter_digit_trim: "filter is_digit (trim s) = filter is_digit s"
proof -
  have "filter is_digit (trim s) = rev (filter is_digit (dropWhile is_js_space (rev (dropWhile is_js_space s))))"
    by (simp add: trim_def rev_filter)
  also have "\<dots> = rev (filter is_digit (rev (dropWhile is_js_space s)))"
    by (simp add: filter_dropWhile_disjoint space_not_digit)
  also have "\<dots> = filter is_digit (dropWhile is_js_space s)"
    by (simp add: rev_filter)
  also have "\<dots> = filter is_digit s"
    by (simp add: filter_dropWhile_disjoint space_not_digit)
  finally show ?thesis .
qed

lemma normalizePhone_digits: "\<forall>c \<in> set (normalizePhone s). is_digit c"
  by (auto simp: normalizePhone_def Let_def is_digit_def)

lemma normalizePhone_length: "length (normalizePhone s) \<noteq> 10"
  by (simp add: normalizePhone_def Let_def)

section \<open>Facts about direct-client.js\<close>

lemma getSchedules_cached:
  "cached (cache_schedules st) now = Some d \<Longrightarrow> getSchedules cfg w now st = (Inr d, st)"
  by (simp add: getSchedules_def)

lemma getSchedules_phoneData:
  "cache_phoneData (snd (getSchedules cfg w now st)) = cache_phoneData st"
  by (simp add: getSchedules_def emit_def split: option.splits sum.splits)

lemma getSchedules_frame:
  "getSchedules cfg w now st = (r, st1) \<Longrightarrow> cache_phoneData st1 = cache_phoneData st"
  using getSchedules_phoneData [of cfg w now st] by simp

lemma getTeamSchedule_frame:
  "getTeamSchedule cfg w now t st = (r, st1) \<Longrightarrow> cache_phoneData st1 = cache_phoneData st"
  by (auto simp: getTeamSchedule_def split: prod.splits sum.splits if_splits dest: getSchedules_frame)

lemma getOnCallUser_frame:
  "getOnCallUser w i st = (r, st1) \<Longrightarrow>
     cache_phoneData st1 = cache_phoneData st \<and> cache_schedules st1 = cache_schedules st"
  by (auto simp: getOnCallUser_def emit_def split: option.splits sum.splits list.splits if_splits)

lemma getOnCallUser_email:
  "getOnCallUser w i st = (Inr (Some u), st1) \<Longrightarrow> truthy (emailAddress u)"
  by (auto simp: getOnCallUser_def split: option.splits sum.splits list.splits if_splits)

lemma getPhoneNumberByEmail_frame:
  "getPhoneNumberByEmail cfg w em st = (r, st1) \<Longrightarrow>
     cache_phoneData st1 = cache_phoneData st \<and> cache_schedules st1 = cache_schedules st"
  by (auto simp: getPhoneNumberByEmail_def emit_def Let_def split: option.splits sum.splits if_splits)

lemma getTeamOnCallPhoneNumber_cases [consumes 1, case_names schedule_error no_schedule user_error no_user phone_error no_phone found]:
  assumes "getTeamOnCallPhoneNumber cfg w now t st = (r, st')"
  obtains
    e where "getTeamSchedule cfg w now t st = (Inl e, st')" "r = Inl e"
  | "getTeamSchedule cfg w now t st = (Inr None, st')"
      "r = Inl (Error (''No schedule found for team: '' @ t))"
  | sch st1 e where "getTeamSchedule cfg w now t st = (Inr (Some sch), st1)"
      "getOnCallUser w (sched_id sch) st1 = (Inl e, st')" "r = Inl e"
  | sch st1 where "getTeamSchedule cfg w now t st = (Inr (Some sch), st1)"
      "getOnCallUser w (sched_id sch) st1 = (Inr None, st')"
      "r = Inl (Error (''No on-call user with email found for team: '' @ t))"
  | sch st1 u st2 em e where "getTeamSchedule cfg w now t st = (Inr (Some sch), st1)"
      "getOnCallUser w (sched_id sch) st1 = (Inr (Some u), st2)"
      "emailAddress u = Some em" "em \<noteq> []"
      "getPhoneNumberByEmail cfg w em st2 = (Inl e, st')" "r = Inl e"
  | sch st1 u st2 em p where "getTeamSchedule cfg w now t st = (Inr (Some sch), st1)"
      "getOnCallUser w (sched_id sch) st1 = (Inr (Some u), st2)"
      "emailAddress u = Some em" "em \<noteq> []"
      "getPhoneNumberByEmail cfg w em st2 = (Inr p, st')" "p = None \<or> p = Some []"
      "r = Inl (Error (''No phone number found for email: '' @ em))"
  | sch st1 u st2 em p where "getTeamSchedule cfg w now t st = (Inr (Some sch), st1)"
      "getOnCallUser w (sched_id sch) st1 = (Inr (Some u), st2)"
      "emailAddress u = Some em" "em \<noteq> []"
      "getPhoneNumberByEmail cfg w em st2 = (Inr (Some p), st')" "p \<noteq> []" "r = Inr p"
proof -
  obtain r1 st1 where g: "getTeamSchedule cfg w now t st = (r1, st1)"
    by (cases "getTeamSchedule cfg w now t st")
  show thesis
  proof (cases r1)
    case (Inl e)
    with g assms that(1) show thesis by (simp add: getTeamOnCallPhoneNumber_def)
  next
    case (Inr so)
    show thesis
    proof (cases so)
      case None
      with g Inr assms that(2) show thesis by (simp add: getTeamOnCallPhoneNumber_def)
    next
      case (Some sch)
      obtain r2 st2 where u: "getOnCallUser w (sched_id sch) st1 = (r2, st2)"
        by (cases "getOnCallUser w (sched_id sch) st1")
      show thesis
      proof (cases r2)
        case (Inl e)
        with g Inr Some u assms that(3) show thesis by (simp add: getTeamOnCallPhoneNumber_def)
      next
        case uo: (Inr uo)
        show thesis
        proof (cases uo)
          case None
          with g Inr Some u uo assms that(4) show thesis
            by (simp add: getTeamOnCallPhoneNumber_def)
        next
          case usr: (Some usr)
          with u uo have "truthy (emailAddress usr)" using getOnCallUser_email by blast
          then obtain em where em: "emailAddress usr = Some em" "em \<noteq> []"
            by (auto simp: truthy_def split: option.splits)
          obtain r3 st3 where p: "getPhoneNumberByEmail cfg w em st2 = (r3, st3)"
            by (cases "getPhoneNumberByEmail cfg w em st2")
          have run: "getTeamOnCallPhoneNumber cfg w now t st =
                (case r3 of Inl e \<Rightarrow> (Inl e, st3)
                 | Inr None \<Rightarrow> (Inl (Error (''No phone number found for email: '' @ em)), st3)
                 | Inr (Some ph) \<Rightarrow>
                     if ph = [] then (Inl (Error (''No phone number found for email: '' @ em)), st3)
                     else (Inr ph, st3))"
            using g Inr Some u uo usr em p by (simp add: getTeamOnCallPhoneNumber_def)
          show thesis
          proof (cases r3)
            case (Inl e)
            with run assms that(5) [OF _ _ em] g Inr Some u uo usr p show thesis by simp
          next
            case po: (Inr po)
            show thesis
            proof (cases "po = None \<or> po = Some []")
              case True
              with run assms po that(6) [OF _ _ em] g Inr Some u uo usr p show thesis by auto
            next
              case False
              then obtain ph where "po = Some ph" "ph \<noteq> []" by (cases po) auto
              with run assms po that(7) [OF _ _ em] g Inr Some u uo usr p show thesis by simp
            qed
          qed
        qed
      qed
    qed
  qed
qed

lemma getTeamOnCallPhoneNumber_phoneData:
  assumes "getTeamOnCallPhoneNumber cfg w now t st = (r, st')"
  shows "cache_phoneData st' = cache_phoneData st"
  using assms
  by (cases rule: getTeamOnCallPhoneNumber_cases)
     (auto dest!: getTeamSchedule_frame getOnCallUser_frame getPhoneNumberByEmail_frame)

lemma isHealthy_frame:
  "isHealthy cfg w now st = (r, st1) \<Longrightarrow> cache_phoneData st1 = cache_phoneData st"
  by (auto simp: isHealthy_def split: prod.splits sum.splits dest: getSchedules_frame)

lemma run_call_frame:
  "cache_phoneData (run_call cfg w now c st) = cache_phoneData st
   \<or> (c = CallClearCaches \<and> data (cache_phoneData (run_call cfg w now c st)) = None
        \<and> expiry (cache_phoneData (run_call cfg w now c st)) = None)"
proof (cases c)
  case (CallGetTeamOnCallPhoneNumber t)
  then show ?thesis
    using getTeamOnCallPhoneNumber_phoneData [OF surjective_pairing] by simp
next
  case (CallGetTeamSchedule t)
  then show ?thesis using getTeamSchedule_frame [OF surjective_pairing] by simp
next
  case CallGetSchedules
  then show ?thesis using getSchedules_frame [OF surjective_pairing] by simp
next
  case (CallGetOnCallUser i)
  then show ?thesis using getOnCallUser_frame [OF surjective_pairing] by simp
next
  case (CallGetPhoneNumberByEmail em)
  then show ?thesis using getPhoneNumberByEmail_frame [OF surjective_pairing] by simp
next
  case CallClearCaches
  then show ?thesis by (simp add: clearCaches_def)
next
  case CallIsHealthy
  then show ?thesis using isHealthy_frame [OF surjective_pairing] by simp
next
  case CallCloseSqlConnections
  then show ?thesis by (simp add: closeSqlConnections_def)
qed

lemma run_call_phoneData:
  "phoneData_empty st \<Longrightarrow> phoneData_empty (run_call cfg w now c st)"
  using run_call_frame [of cfg w now c st] by (auto simp: phoneData_empty_def)

lemma run_calls_phoneData:
  "phoneData_empty st \<Longrightarrow> phoneData_empty (run_calls cfg calls st)"
proof (induction calls arbitrary: st)
  case Nil
  then show ?case by simp
next
  case (Cons a calls)
  obtain w now c where a: "a = (w, now, c)" by (cases a)
  from Cons.prems have "phoneData_empty (run_call cfg w now c st)" by (rule run_call_phoneData)
  then show ?case using Cons.IH a by simp
qed

lemma run_call_phoneData_written:
  "cache_phoneData (run_call cfg w now c st) \<noteq> cache_phoneData st \<Longrightarrow> c = CallClearCaches"
  using run_call_frame [of cfg w now c st] by auto





lemma getPhoneNumberByEmail_value:
  assumes "getPhoneNumberByEmail cfg w em st = (Inr (Some p), st1)"
  shows "\<exists>record rest raw. sql_rows_by_email w em = Inr (record # rest)
           \<and> cellPhone record = Some raw \<and> raw \<noteq> [] \<and> p = normalizePhone raw"
  using assms
  by (auto simp: getPhoneNumberByEmail_def format_record_def Let_def
           split: option.splits sum.splits if_splits list.splits)








section \<open>Facts about sql-data.js\<close>

lemma phone_of_record_shape:
  "phone_of_record cfg record = Some q \<Longrightarrow>
     q = defaultPhoneNumber cfg \<or> (\<exists>raw. cellPhone record = Some raw \<and> raw \<noteq> [] \<and> q = normalizePhone raw)"
  by (auto simp: phone_of_record_def truthy_def or_empty_def split: if_splits option.splits)

lemma fetchPhoneData_fails_open:
  assumes "sql_all_rows w = Inl e"
    and "fallback_useTempFile cfg \<longrightarrow> (\<forall>rs. temp_file w \<noteq> FileRows rs)"
  shows "fst (fetchPhoneData cfg w st) = []
         \<and> forceRefresh (snd (fetchPhoneData cfg w st)) = forceRefresh st"
proof -
  have "fst (fetchPhoneData_sql cfg w st) = []
         \<and> forceRefresh (snd (fetchPhoneData_sql cfg w st)) = forceRefresh st"
    using assms(1)
    by (auto simp: fetchPhoneData_sql_def initSqlPool_def split: option.splits prod.splits bool.splits)
  with assms(2) show ?thesis
    by (cases "temp_file w") (auto simp: fetchPhoneData_def)
qed

lemma lookup_on_empty_snapshot:
  assumes "phoneDataCache st = Some []" "phoneDataExpiry st = Some x" "x \<noteq> 0" "now < x"
    "\<not> forceRefresh st" "ops_jira_api_forceRefresh w \<noteq> Some True"
  shows "sql_getPhoneNumberByEmail cfg w now em st = (None, st)"
proof -
  have "read_forceRefresh w st = st"
    using assms(5,6) by (cases "ops_jira_api_forceRefresh w") (auto simp: read_forceRefresh_def)
  moreover have "snapshot_fresh now st"
    using assms by (simp add: snapshot_fresh_def)
  ultimately have "ensurePhoneDataLoaded cfg w now st = st"
    by (simp add: ensurePhoneDataLoaded_def)
  with assms(1) show ?thesis by (simp add: sql_getPhoneNumberByEmail_def)
qed

lemma refresh_fails_open_in_sql_data:
  assumes query: "sql_all_rows w = Inl e"
    and nofile: "fallback_useTempFile cfg \<longrightarrow> (\<forall>rs. temp_file w \<noteq> FileRows rs)"
    and refresh: "\<not> snapshot_fresh now (read_forceRefresh w st)"
    and clock: "0 \<le> now"
  shows "\<exists>st1. sql_getPhoneNumberByEmail cfg w now em st = (None, st1)
           \<and> phoneDataCache st1 = Some []
           \<and> phoneDataExpiry st1 = Some (now + CACHE_DURATION)
           \<and> (\<forall>w2 now2 em2.
                 ops_jira_api_forceRefresh w2 \<noteq> Some True \<and> now2 < now + CACHE_DURATION
                 \<longrightarrow> sql_getPhoneNumberByEmail cfg w2 now2 em2 st1 = (None, st1))"
proof -
  let ?st0 = "(read_forceRefresh w st)\<lparr>forceRefresh := False\<rparr>"
  obtain rows st1 where f: "fetchPhoneData cfg w ?st0 = (rows, st1)"
    by (cases "fetchPhoneData cfg w ?st0")
  with fetchPhoneData_fails_open [OF query nofile, of ?st0]
  have rows: "rows = []" and flag: "\<not> forceRefresh st1" by simp_all
  let ?st2 = "st1\<lparr>phoneDataCache := Some [], phoneDataExpiry := Some (now + CACHE_DURATION)\<rparr>"
  have ens: "ensurePhoneDataLoaded cfg w now st = ?st2"
    using refresh f rows by (simp add: ensurePhoneDataLoaded_def)
  then have first: "sql_getPhoneNumberByEmail cfg w now em st = (None, ?st2)"
    by (simp add: sql_getPhoneNumberByEmail_def)
  have nz: "now + CACHE_DURATION \<noteq> 0" using clock by (simp add: CACHE_DURATION_def)
  have "sql_getPhoneNumberByEmail cfg w2 now2 em2 ?st2 = (None, ?st2)"
    if "ops_jira_api_forceRefresh w2 \<noteq> Some True" "now2 < now + CACHE_DURATION" for w2 now2 em2
    using that flag nz by (intro lookup_on_empty_snapshot [where x = "now + CACHE_DURATION"]) simp_all
  with first show ?thesis by simp
qed

section \<open>Claims\<close>

text \<open>
  C1 (as amended). The claim says that a directory record with an extension but no cell
  phone makes the resolution return \<open>config.defaultPhoneNumber\<close>. In direct-client.js the
  extension is never read: when the first row found for the on-call user's email has no
  cell phone, getPhoneNumberByEmail returns null and getTeamOnCallPhoneNumber fails with
  "No phone number found for email: ...", whatever the extension holds. Only the lookup of
  sql-data.js substitutes the default number, for a matched record without cell phone
  whose extension is truthy and not blank after trimming.
\<close>

theorem record_without_cell_phone:
  "(sql_credentials_ok cfg \<and> truthy (sql_database cfg) \<and> sql_connect w = None
      \<and> sql_pool_close w = None \<and> sql_rows_by_email w em = Inr (entry # rest)
      \<and> \<not> truthy (cellPhone entry)
      \<longrightarrow> fst (getPhoneNumberByEmail cfg w em st2) = Inr None
        \<and> (getTeamSchedule cfg w now team st = (Inr (Some sch), st1)
             \<and> getOnCallUser w (sched_id sch) st1 = (Inr (Some u), st2)
             \<and> emailAddress u = Some em
           \<longrightarrow> fst (getTeamOnCallPhoneNumber cfg w now team st)
                 = Inl (Error (''No phone number found for email: '' @ em))))
   \<and> (phoneDataCache (ensurePhoneDataLoaded cfg w now sst) = Some rows
        \<and> find (email_matches em) rows = Some entry
        \<and> \<not> truthy (cellPhone entry) \<and> column_truthy (extension entry)
        \<and> trim (or_empty (column_toString (extension entry))) \<noteq> []
      \<longrightarrow> fst (sql_getPhoneNumberByEmail cfg w now em sst) = Some (defaultPhoneNumber cfg))"
proof -
  have a: "fst (getPhoneNumberByEmail cfg w em st2) = Inr None"
    if "sql_credentials_ok cfg" "truthy (sql_database cfg)" "sql_connect w = None"
       "sql_pool_close w = None" "sql_rows_by_email w em = Inr (entry # rest)"
       "\<not> truthy (cellPhone entry)"
    using that
    by (auto simp: getPhoneNumberByEmail_def format_record_def Let_def truthy_def
             split: option.splits)
  have b: "fst (getTeamOnCallPhoneNumber cfg w now team st)
                 = Inl (Error (''No phone number found for email: '' @ em))"
    if "fst (getPhoneNumberByEmail cfg w em st2) = Inr None"
       "getTeamSchedule cfg w now team st = (Inr (Some sch), st1)"
       "getOnCallUser w (sched_id sch) st1 = (Inr (Some u), st2)" "emailAddress u = Some em"
  proof -
    from that(3,4) getOnCallUser_email have "em \<noteq> []" by (fastforce simp: truthy_def)
    with that show ?thesis
      by (cases "getPhoneNumberByEmail cfg w em st2") (simp add: getTeamOnCallPhoneNumber_def)
  qed
  have c: "fst (sql_getPhoneNumberByEmail cfg w now em sst) = Some (defaultPhoneNumber cfg)"
    if "phoneDataCache (ensurePhoneDataLoaded cfg w now sst) = Some rows"
       "find (email_matches em) rows = Some entry"
       "\<not> truthy (cellPhone entry)" "column_truthy (extension entry)"
       "trim (or_empty (column_toString (extension entry))) \<noteq> []"
  proof -
    from that(2) have "rows \<noteq> []" by auto
    with that show ?thesis
      by (simp add: sql_getPhoneNumberByEmail_def Let_def phone_of_record_def)
  qed
  from a b c show ?thesis by blast
qed

theorem record_without_cell_phone_witness:
  "\<not> truthy (cellPhone extension_only_record)
   \<and> column_truthy (extension extension_only_record)
   \<and> fst (getPhoneNumberByEmail example_config world_extension_only ''a@x.com'' initial_state)
       = Inr None
   \<and> fst (getTeamOnCallPhoneNumber example_config world_extension_only 1000 ''Help-Desk-schedule''
            initial_state) = Inl (Error ''No phone number found for email: a@x.com'')
   \<and> fst (sql_getPhoneNumberByEmail example_config world_extension_only 1000 ''A@X.com''
            sql_data_initial) = Some ''15555555555''"
proof -
  let ?sch = "\<lparr>sched_id = ''s-2'', sched_name = ''Help-Desk-schedule''\<rparr>"
  let ?u = "\<lparr>displayName = Some ''Alice Example'', emailAddress = Some ''a@x.com''\<rparr>"
  have rows: "sql_rows_by_email world_extension_only ''a@x.com'' = Inr (extension_only_record # [])"
    by (simp add: world_extension_only_def)
  have cell: "\<not> truthy (cellPhone extension_only_record)"
    by (simp add: extension_only_record_def truthy_def)
  have ext: "column_truthy (extension extension_only_record)"
    by (simp add: extension_only_record_def example_record_def)
  have blank: "trim (or_empty (column_toString (extension extension_only_record))) \<noteq> []"
    by code_simp
  have cfg: "sql_credentials_ok example_config" "truthy (sql_database example_config)"
    by (simp_all add: sql_credentials_ok_def example_config_def truthy_def)
  have srv: "sql_connect world_extension_only = None" "sql_pool_close world_extension_only = None"
    by (simp_all add: world_extension_only_def example_world_def)
  have "fst (getTeamSchedule example_config world_extension_only 1000 ''Help-Desk-schedule''
               initial_state) = Inr (Some ?sch)"
    by code_simp
  then obtain s1 where sched:
    "getTeamSchedule example_config world_extension_only 1000 ''Help-Desk-schedule'' initial_state
       = (Inr (Some ?sch), s1)"
    by (metis prod.collapse)
  let ?s2 = "emit (HttpUser ''acct-7'') (emit (HttpOnCalls ''s-2'') s1)"
  have usr: "getOnCallUser world_extension_only (sched_id ?sch) s1 = (Inr (Some ?u), ?s2)"
    by (simp add: getOnCallUser_def fetch_json_def world_extension_only_def example_world_def
          ok_response_def truthy_def)
  have mail: "emailAddress ?u = Some ''a@x.com''"
    by simp
  have snap: "phoneDataCache (ensurePhoneDataLoaded example_config world_extension_only 1000
                sql_data_initial) = Some [extension_only_record]"
    by code_simp
  have found: "find (email_matches ''A@X.com'') [extension_only_record] = Some extension_only_record"
    by code_simp
  note direct_rule = record_without_cell_phone [where cfg = example_config
      and w = world_extension_only and entry = extension_only_record and rest = "[]"
      and em = "''a@x.com''" and ?st2.0 = initial_state, THEN conjunct1]
  have direct: "fst (getPhoneNumberByEmail example_config world_extension_only ''a@x.com''
                  initial_state) = Inr None"
    by (rule mp [OF direct_rule, THEN conjunct1]) (intro conjI cfg srv rows cell)
  note pipeline_rule = record_without_cell_phone [where cfg = example_config
      and w = world_extension_only and entry = extension_only_record and rest = "[]"
      and em = "''a@x.com''" and ?st2.0 = ?s2 and now = 1000 and team = "''Help-Desk-schedule''"
      and st = initial_state and sch = ?sch and ?st1.0 = s1 and u = ?u, THEN conjunct1]
  have "getTeamSchedule example_config world_extension_only 1000 ''Help-Desk-schedule''
          initial_state = (Inr (Some ?sch), s1)
        \<and> getOnCallUser world_extension_only (sched_id ?sch) s1 = (Inr (Some ?u), ?s2)
        \<and> emailAddress ?u = Some ''a@x.com''
        \<longrightarrow> fst (getTeamOnCallPhoneNumber example_config world_extension_only 1000
                   ''Help-Desk-schedule'' initial_state)
              = Inl (Error (''No phone number found for email: '' @ ''a@x.com''))"
    by (rule mp [OF pipeline_rule, THEN conjunct2]) (intro conjI cfg srv rows cell)
  then have pipeline: "fst (getTeamOnCallPhoneNumber example_config world_extension_only 1000
                    ''Help-Desk-schedule'' initial_state)
                  = Inl (Error (''No phone number found for email: '' @ ''a@x.com''))"
    by (rule mp) (intro conjI sched usr mail)
  note legacy_rule = record_without_cell_phone [where cfg = example_config
      and w = world_extension_only and entry = extension_only_record
      and em = "''A@X.com''" and now = 1000 and rows = "[extension_only_record]"
      and sst = sql_data_initial, THEN conjunct2]
  have legacy: "fst (sql_getPhoneNumberByEmail example_config world_extension_only 1000 ''A@X.com''
            sql_data_initial) = Some (defaultPhoneNumber example_config)"
    by (rule mp [OF legacy_rule]) (intro conjI snap found cell ext blank)
  from cell ext direct pipeline legacy show ?thesis by (simp add: example_config_def)
qed

theorem default_number_counterexample:
  "column_truthy (extension extension_only_record)
   \<and> cellPhone extension_only_record = None
   \<and> sql_rows_by_email world_extension_only ''a@x.com'' = Inr [extension_only_record]
   \<and> fst (getTeamOnCallPhoneNumber example_config world_extension_only 1000
            ''Help-Desk-schedule'' initial_state)
       = Inl (Error ''No phone number found for email: a@x.com'')
   \<and> fst (getTeamOnCallPhoneNumber example_config world_extension_only 1000
            ''Help-Desk-schedule'' initial_state)
       \<noteq> Inr (defaultPhoneNumber example_config)"
  by code_simp




text \<open>
  C3 (as amended). The claim holds where a directory refresh exists, in sql-data.js: when
  the directory query throws during a refresh (the CSV file not being served), the error
  stays inside fetchPhoneData, the lookup that triggered the refresh completes with null,
  the snapshot is the empty list with an expiry one hour ahead, and every later lookup
  inside that hour, unless a refresh is forced, completes with null as well. It does not
  hold for the lookup of direct-client.js, the one server.js runs: there is no snapshot,
  and a query that throws is rethrown by getPhoneNumberByEmail after the pool is closed
  (an error of the close takes its place), the phoneData slot is left as it was, and
  getTeamOnCallPhoneNumber fails with that error instead of a NotFound outcome.
\<close>

theorem directory_refresh_fails_open:
  "(sql_all_rows w = Inl e
      \<and> (fallback_useTempFile cfg \<longrightarrow> (\<forall>rs. temp_file w \<noteq> FileRows rs))
      \<and> \<not> snapshot_fresh now (read_forceRefresh w st)
      \<and> 0 \<le> now
    \<longrightarrow> (\<exists>st1. sql_getPhoneNumberByEmail cfg w now em st = (None, st1)
           \<and> phoneDataCache st1 = Some []
           \<and> phoneDataExpiry st1 = Some (now + CACHE_DURATION)
           \<and> (\<forall>w2 now2 em2.
                 ops_jira_api_forceRefresh w2 \<noteq> Some True \<and> now2 < now + CACHE_DURATION
                 \<longrightarrow> sql_getPhoneNumberByEmail cfg w2 now2 em2 st1 = (None, st1))))
   \<and> (sql_credentials_ok cfg \<and> truthy (sql_database cfg) \<and> sql_connect w = None
        \<and> sql_rows_by_email w em = Inl e
      \<longrightarrow> getPhoneNumberByEmail cfg w em cs2
            = (Inl (case sql_pool_close w of None \<Rightarrow> e | Some ec \<Rightarrow> ec),
               emit SqlClose (emit (SqlQuery em) (emit SqlConnect cs2)))
        \<and> cache_phoneData (snd (getPhoneNumberByEmail cfg w em cs2)) = cache_phoneData cs2
        \<and> (getTeamSchedule cfg w now team cs = (Inr (Some sch), cs1)
             \<and> getOnCallUser w (sched_id sch) cs1 = (Inr (Some u), cs2)
             \<and> emailAddress u = Some em
           \<longrightarrow> fst (getTeamOnCallPhoneNumber cfg w now team cs)
                 = Inl (case sql_pool_close w of None \<Rightarrow> e | Some ec \<Rightarrow> ec)))"
  (is "(?H \<longrightarrow> ?S) \<and> (?G \<longrightarrow> ?L \<and> ?P \<and> (?T \<longrightarrow> ?O))")
proof -
  have legacy: "?H \<longrightarrow> ?S"
  proof
    assume h: ?H
    then have "sql_all_rows w = Inl e"
      and "fallback_useTempFile cfg \<longrightarrow> (\<forall>rs. temp_file w \<noteq> FileRows rs)"
      and "\<not> snapshot_fresh now (read_forceRefresh w st)" and "0 \<le> now"
      by simp_all
    then show ?S by (rule refresh_fails_open_in_sql_data)
  qed
  have direct: "?L \<and> ?P \<and> (?T \<longrightarrow> ?O)" if g: ?G
  proof -
    from g have l: ?L
      by (simp add: getPhoneNumberByEmail_def Let_def split: option.splits)
    then have p: ?P
      by (simp add: emit_def)
    have o: ?O if t: ?T
    proof -
      from t getOnCallUser_email have "em \<noteq> []" by (fastforce simp: truthy_def)
      with t l show ?thesis by (simp add: getTeamOnCallPhoneNumber_def)
    qed
    from l p o show ?thesis by blast
  qed
  from legacy direct show ?thesis by blast
qed

theorem directory_refresh_fails_open_witness:
  "sql_all_rows world_query_fails = Inl (Error ''Invalid object name'')
   \<and> \<not> snapshot_fresh 1000 (read_forceRefresh world_query_fails sql_data_initial)
   \<and> fst (sql_getPhoneNumberByEmail example_config world_query_fails 1000 ''a@x.com''
            sql_data_initial) = None
   \<and> phoneDataCache (snd (sql_getPhoneNumberByEmail example_config world_query_fails 1000
            ''a@x.com'' sql_data_initial)) = Some []
   \<and> fst (sql_getPhoneNumberByEmail example_config example_world 2000 ''a@x.com''
            (snd (sql_getPhoneNumberByEmail example_config world_query_fails 1000 ''a@x.com''
                    sql_data_initial))) = None
   \<and> sql_rows_by_email world_query_fails ''a@x.com'' = Inl (Error ''Invalid object name'')
   \<and> getPhoneNumberByEmail example_config world_query_fails ''a@x.com'' initial_state
       = (Inl (Error ''Invalid object name''),
          emit SqlClose (emit (SqlQuery ''a@x.com'') (emit SqlConnect initial_state)))"
proof -
  have query: "sql_all_rows world_query_fails = Inl (Error ''Invalid object name'')"
    by (simp add: world_query_fails_def)
  have nofile: "fallback_useTempFile example_config \<longrightarrow>
                  (\<forall>rs. temp_file world_query_fails \<noteq> FileRows rs)"
    by (simp add: example_config_def)
  have refresh: "\<not> snapshot_fresh 1000 (read_forceRefresh world_query_fails sql_data_initial)"
    by code_simp
  have clock: "(0 :: int) \<le> 1000" by simp
  have flag: "ops_jira_api_forceRefresh example_world \<noteq> Some True"
    by (simp add: example_world_def)
  have later: "(2000 :: int) < 1000 + CACHE_DURATION" by (simp add: CACHE_DURATION_def)
  note legacy_rule = directory_refresh_fails_open [where w = world_query_fails
      and e = "Error ''Invalid object name''" and cfg = example_config and now = 1000
      and st = sql_data_initial and em = "''a@x.com''", THEN conjunct1]
  have "\<exists>st1. sql_getPhoneNumberByEmail example_config world_query_fails 1000 ''a@x.com''
              sql_data_initial = (None, st1)
           \<and> phoneDataCache st1 = Some []
           \<and> phoneDataExpiry st1 = Some (1000 + CACHE_DURATION)
           \<and> (\<forall>w2 now2 em2.
                 ops_jira_api_forceRefresh w2 \<noteq> Some True \<and> now2 < 1000 + CACHE_DURATION
                 \<longrightarrow> sql_getPhoneNumberByEmail example_config w2 now2 em2 st1 = (None, st1))"
    by (rule mp [OF legacy_rule]) (intro conjI query nofile refresh clock)
  then obtain st1 where
    first: "sql_getPhoneNumberByEmail example_config world_query_fails 1000 ''a@x.com''
              sql_data_initial = (None, st1)"
    and snap: "phoneDataCache st1 = Some []"
    and nxt: "\<forall>w2 now2 em2.
                 ops_jira_api_forceRefresh w2 \<noteq> Some True \<and> now2 < 1000 + CACHE_DURATION
                 \<longrightarrow> sql_getPhoneNumberByEmail example_config w2 now2 em2 st1 = (None, st1)"
    by auto
  from nxt flag later
  have second: "sql_getPhoneNumberByEmail example_config example_world 2000 ''a@x.com'' st1
                  = (None, st1)"
    by auto
  have cfg: "sql_credentials_ok example_config" "truthy (sql_database example_config)"
    by (simp_all add: sql_credentials_ok_def example_config_def truthy_def)
  have srv: "sql_connect world_query_fails = None"
    by (simp add: world_query_fails_def example_world_def)
  have close: "sql_pool_close world_query_fails = None"
    by (simp add: world_query_fails_def example_world_def)
  have rows: "sql_rows_by_email world_query_fails ''a@x.com'' = Inl (Error ''Invalid object name'')"
    by (simp add: world_query_fails_def)
  note direct_rule = directory_refresh_fails_open [where w = world_query_fails
      and e = "Error ''Invalid object name''" and cfg = example_config
      and em = "''a@x.com''" and ?cs2.0 = initial_state, THEN conjunct2]
  have "getPhoneNumberByEmail example_config world_query_fails ''a@x.com'' initial_state
          = (Inl (case sql_pool_close world_query_fails of
                    None \<Rightarrow> Error ''Invalid object name'' | Some ec \<Rightarrow> ec),
             emit SqlClose (emit (SqlQuery ''a@x.com'') (emit SqlConnect initial_state)))"
    by (rule mp [OF direct_rule, THEN conjunct1]) (intro conjI cfg srv rows)
  with close have thrown:
    "getPhoneNumberByEmail example_config world_query_fails ''a@x.com'' initial_state
       = (Inl (Error ''Invalid object name''),
          emit SqlClose (emit (SqlQuery ''a@x.com'') (emit SqlConnect initial_state)))"
    by simp
  from query refresh first snap second rows thrown show ?thesis by simp
qed

theorem query_error_rethrown_counterexample:
  "sql_rows_by_email world_query_fails ''a@x.com'' = Inl (Error ''Invalid object name'')
   \<and> fst (getPhoneNumberByEmail example_config world_query_fails ''a@x.com'' initial_state)
       = Inl (Error ''Invalid object name'')
   \<and> fst (getPhoneNumberByEmail example_config world_query_fails ''a@x.com'' initial_state)
       \<noteq> Inr None
   \<and> data (cache_phoneData (snd (getPhoneNumberByEmail example_config world_query_fails
              ''a@x.com'' initial_state))) = None
   \<and> fst (getTeamOnCallPhoneNumber example_config world_query_fails 1000 ''Help-Desk-schedule''
            initial_state) = Inl (Error ''Invalid object name'')"
  by code_simp

text \<open>
  C4. Phone normalisation strips every non-digit character from the raw phone string,
  prepends "1" exactly when the digit string has length 10 and returns the digit string
  unchanged otherwise; "(555) 123-4567" becomes "15551234567", "+44 20 7946 0958" becomes
  "442079460958" with no "1" in front, and the empty input gives the empty result.
\<close>

theorem normalizePhone_spec:
  "normalizePhone raw =
     (if length (filter is_digit raw) = 10 then ''1'' @ filter is_digit raw
      else filter is_digit raw)
   \<and> normalizePhone ''(555) 123-4567'' = ''15551234567''
   \<and> normalizePhone ''+44 20 7946 0958'' = ''442079460958''
   \<and> normalizePhone '''' = ''''"
proof -
  have a: "normalizePhone raw =
     (if length (filter is_digit raw) = 10 then ''1'' @ filter is_digit raw
      else filter is_digit raw)"
    by (simp add: normalizePhone_def filter_digit_trim)
  have b: "normalizePhone ''(555) 123-4567'' = ''15551234567''"
    by (simp add: normalizePhone_def filter_digit_trim is_digit_def)
  have c: "normalizePhone ''+44 20 7946 0958'' = ''442079460958''"
    by (simp add: normalizePhone_def filter_digit_trim is_digit_def)
  have d: "normalizePhone '''' = ''''"
    by (simp add: normalizePhone_def filter_digit_trim)
  from a b c d show ?thesis by blast
qed

theorem normalizePhone_spec_witness:
  "normalizePhone ''555.123.4567 x9'' = ''55512345679''
   \<and> normalizePhone ''  555-123-4567 '' = ''15551234567''"
proof -
  have "normalizePhone ''555.123.4567 x9'' = ''55512345679''"
    using normalizePhone_spec [of "''555.123.4567 x9''"] by (simp add: is_digit_def)
  moreover have "normalizePhone ''  555-123-4567 '' = ''15551234567''"
    using normalizePhone_spec [of "''  555-123-4567 ''"] by (simp add: is_digit_def)
  ultimately show ?thesis by simp
qed

text \<open>
  C5 (as amended). The claim allows three shapes only: eleven digits beginning with "1",
  the default number, or null. The code passes every digit string through: a phone number
  returned by getTeamOnCallPhoneNumber is the normalised cell phone of the first row
  found, a non-empty string of ASCII digits whose length is never 10 (by C4 it has eleven
  digits beginning with "1" when the raw phone holds exactly ten digits, and is the raw
  phone's digits otherwise); the lookup of sql-data.js gives null, the default number or
  a string of ASCII digits, possibly empty, whose length is never 10.
\<close>

theorem phone_number_shape:
  "(fst (getTeamOnCallPhoneNumber cfg w now team st) = Inr p \<longrightarrow>
      p \<noteq> [] \<and> (\<forall>c \<in> set p. is_digit c) \<and> length p \<noteq> 10
      \<and> (\<exists>em record rest raw. sql_rows_by_email w em = Inr (record # rest)
            \<and> cellPhone record = Some raw \<and> p = normalizePhone raw))
   \<and> (fst (sql_getPhoneNumberByEmail cfg w now em' st') = Some q \<longrightarrow>
        q = defaultPhoneNumber cfg
        \<or> ((\<forall>c \<in> set q. is_digit c) \<and> length q \<noteq> 10 \<and> (\<exists>raw. q = normalizePhone raw)))"
proof -
  have a: "fst (getTeamOnCallPhoneNumber cfg w now team st) = Inr p \<longrightarrow>
      p \<noteq> [] \<and> (\<forall>c \<in> set p. is_digit c) \<and> length p \<noteq> 10
      \<and> (\<exists>em record rest raw. sql_rows_by_email w em = Inr (record # rest)
            \<and> cellPhone record = Some raw \<and> p = normalizePhone raw)"
  proof
    assume h: "fst (getTeamOnCallPhoneNumber cfg w now team st) = Inr p"
    obtain r st1 where run: "getTeamOnCallPhoneNumber cfg w now team st = (r, st1)"
      by (cases "getTeamOnCallPhoneNumber cfg w now team st")
    with h have r: "r = Inr p" by simp
    from run show "p \<noteq> [] \<and> (\<forall>c \<in> set p. is_digit c) \<and> length p \<noteq> 10
      \<and> (\<exists>em record rest raw. sql_rows_by_email w em = Inr (record # rest)
            \<and> cellPhone record = Some raw \<and> p = normalizePhone raw)"
    proof (cases rule: getTeamOnCallPhoneNumber_cases)
      case (found sch st1 u st2 em q)
      with r have pq: "q = p" by simp
      from getPhoneNumberByEmail_value [OF found(5)] pq found(6)
      show ?thesis using normalizePhone_digits normalizePhone_length by blast
    qed (use r in simp_all)
  qed
  have b: "fst (sql_getPhoneNumberByEmail cfg w now em' st') = Some q \<longrightarrow>
        q = defaultPhoneNumber cfg
        \<or> ((\<forall>c \<in> set q. is_digit c) \<and> length q \<noteq> 10 \<and> (\<exists>raw. q = normalizePhone raw))"
  proof
    assume "fst (sql_getPhoneNumberByEmail cfg w now em' st') = Some q"
    then obtain rcd where "phone_of_record cfg rcd = Some q"
      by (auto simp: sql_getPhoneNumberByEmail_def Let_def split: option.splits if_splits)
    from phone_of_record_shape [OF this]
    show "q = defaultPhoneNumber cfg
        \<or> ((\<forall>c \<in> set q. is_digit c) \<and> length q \<noteq> 10 \<and> (\<exists>raw. q = normalizePhone raw))"
      using normalizePhone_digits normalizePhone_length by blast
  qed
  from a b show ?thesis by blast
qed

theorem phone_number_shape_witness:
  "fst (getTeamOnCallPhoneNumber example_config example_world 1000 ''Help-Desk-schedule''
          initial_state) = Inr ''15551234567''
   \<and> fst (sql_getPhoneNumberByEmail example_config example_world 1000 ''a@x.com''
            sql_data_initial) = Some ''15551234567''
   \<and> length ''15551234567'' \<noteq> 10
   \<and> ''15551234567'' \<noteq> defaultPhoneNumber example_config"
proof -
  have one: "fst (getTeamOnCallPhoneNumber example_config example_world 1000
                ''Help-Desk-schedule'' initial_state) = Inr ''15551234567''"
    by code_simp
  have two: "fst (sql_getPhoneNumberByEmail example_config example_world 1000 ''a@x.com''
            sql_data_initial) = Some ''15551234567''"
    by code_simp
  have other: "''15551234567'' \<noteq> defaultPhoneNumber example_config"
    by (simp add: example_config_def)
  from phone_number_shape [of example_config example_world 1000 "''Help-Desk-schedule''"
      initial_state "''15551234567''" "''a@x.com''" sql_data_initial "''15551234567''"] one two
  have "length ''15551234567'' \<noteq> 10" by blast
  with one two other show ?thesis by blast
qed

theorem phone_number_shape_counterexample:
  "fst (getTeamOnCallPhoneNumber example_config world_uk_number 1000 ''Help-Desk-schedule''
          initial_state) = Inr ''442079460958''
   \<and> length ''442079460958'' \<noteq> 11
   \<and> hd ''442079460958'' \<noteq> CHR ''1''
   \<and> ''442079460958'' \<noteq> defaultPhoneNumber example_config"
  by code_simp




text \<open>
  C7. Given the schedule snapshot that getSchedules returns, getTeamSchedule is the first
  schedule whose name is equal to the team name as a string; whatever it returns is in the
  snapshot and carries exactly that name; and when no schedule carries it, getTeamSchedule
  returns no schedule and the entry point fails with "No schedule found for team: ...".
  Nothing else is tried.
\<close>

theorem getTeamSchedule_exact:
  assumes "getSchedules cfg w now st = (Inr snapshot, st1)"
  shows "getTeamSchedule cfg w now teamName st
           = (Inr (find (\<lambda>s. sched_name s = teamName) snapshot), st1)
         \<and> (\<forall>s. fst (getTeamSchedule cfg w now teamName st) = Inr (Some s)
                \<longrightarrow> s \<in> set snapshot \<and> sched_name s = teamName)
         \<and> ((\<forall>s \<in> set snapshot. sched_name s \<noteq> teamName)
                \<longrightarrow> getTeamSchedule cfg w now teamName st = (Inr None, st1)
                  \<and> getTeamOnCallPhoneNumber cfg w now teamName st
                      = (Inl (Error (''No schedule found for team: '' @ teamName)), st1))"
proof -
  have a: "getTeamSchedule cfg w now teamName st
           = (Inr (find (\<lambda>s. sched_name s = teamName) snapshot), st1)"
    using assms by (cases snapshot) (simp_all add: getTeamSchedule_def)
  have b: "\<forall>s. fst (getTeamSchedule cfg w now teamName st) = Inr (Some s)
                \<longrightarrow> s \<in> set snapshot \<and> sched_name s = teamName"
    using a by (auto simp: find_Some_iff)
  have c: "(\<forall>s \<in> set snapshot. sched_name s \<noteq> teamName)
                \<longrightarrow> getTeamSchedule cfg w now teamName st = (Inr None, st1)
                  \<and> getTeamOnCallPhoneNumber cfg w now teamName st
                      = (Inl (Error (''No schedule found for team: '' @ teamName)), st1)"
  proof
    assume h: "\<forall>s \<in> set snapshot. sched_name s \<noteq> teamName"
    then have "find (\<lambda>s. sched_name s = teamName) snapshot = None"
      by (simp add: find_None_iff)
    with a have n: "getTeamSchedule cfg w now teamName st = (Inr None, st1)" by simp
    then show "getTeamSchedule cfg w now teamName st = (Inr None, st1)
                  \<and> getTeamOnCallPhoneNumber cfg w now teamName st
                      = (Inl (Error (''No schedule found for team: '' @ teamName)), st1)"
      by (simp add: getTeamOnCallPhoneNumber_def)
  qed
  from a b c show ?thesis by blast
qed

theorem getTeamSchedule_exact_witness:
  "map_of TEAM_MAPPING ''helpdesk'' = Some ''Help-Desk-schedule''
   \<and> fst (getSchedules example_config example_world 1000 initial_state) = Inr example_schedules
   \<and> fst (getTeamSchedule example_config example_world 1000 ''Help-Desk-schedule'' initial_state)
       = Inr (Some \<lparr>sched_id = ''s-2'', sched_name = ''Help-Desk-schedule''\<rparr>)
   \<and> fst (getTeamSchedule example_config example_world 1000 ''help-desk-schedule'' initial_state)
       = Inr None
   \<and> fst (getTeamOnCallPhoneNumber example_config example_world 1000 ''helpdesk'' initial_state)
       = Inl (Error ''No schedule found for team: helpdesk'')"
proof -
  let ?st1 = "snd (getSchedules example_config example_world 1000 initial_state)"
  have route: "map_of TEAM_MAPPING ''helpdesk'' = Some ''Help-Desk-schedule''"
    by (simp add: TEAM_MAPPING_def)
  have got: "fst (getSchedules example_config example_world 1000 initial_state)
               = Inr example_schedules"
    by code_simp
  then have snap:
    "getSchedules example_config example_world 1000 initial_state = (Inr example_schedules, ?st1)"
    by (metis prod.collapse)
  have hit: "find (\<lambda>s. sched_name s = ''Help-Desk-schedule'') example_schedules
               = Some \<lparr>sched_id = ''s-2'', sched_name = ''Help-Desk-schedule''\<rparr>"
    by code_simp
  have none1: "\<forall>s \<in> set example_schedules. sched_name s \<noteq> ''help-desk-schedule''"
    by code_simp
  have none2: "\<forall>s \<in> set example_schedules. sched_name s \<noteq> ''helpdesk''"
    by code_simp
  have "getTeamSchedule example_config example_world 1000 ''Help-Desk-schedule'' initial_state
          = (Inr (find (\<lambda>s. sched_name s = ''Help-Desk-schedule'') example_schedules), ?st1)"
    using getTeamSchedule_exact [OF snap, of "''Help-Desk-schedule''"] by (rule conjunct1)
  with hit have a: "fst (getTeamSchedule example_config example_world 1000 ''Help-Desk-schedule''
                      initial_state)
           = Inr (Some \<lparr>sched_id = ''s-2'', sched_name = ''Help-Desk-schedule''\<rparr>)"
    by (simp only: fst_conv)
  have "getTeamSchedule example_config example_world 1000 ''help-desk-schedule'' initial_state
          = (Inr None, ?st1)"
    using getTeamSchedule_exact [OF snap, of "''help-desk-schedule''"] none1 by blast
  then have b: "fst (getTeamSchedule example_config example_world 1000 ''help-desk-schedule''
                  initial_state) = Inr None"
    by (simp only: fst_conv)
  have "getTeamOnCallPhoneNumber example_config example_world 1000 ''helpdesk'' initial_state
          = (Inl (Error (''No schedule found for team: '' @ ''helpdesk'')), ?st1)"
    using getTeamSchedule_exact [OF snap, of "''helpdesk''"] none2 by blast
  then have c: "fst (getTeamOnCallPhoneNumber example_config example_world 1000 ''helpdesk''
                  initial_state) = Inl (Error ''No schedule found for team: helpdesk'')"
    by simp
  from route got a b c show ?thesis by (intro conjI)
qed

text \<open>
  C8 (as amended). The claim says that isHealthy leaves both cache slots as they were.
  isHealthy calls getSchedules, which refills the schedule slot on a miss. What holds:
  isHealthy never touches the phoneData slot; with a fresh schedule cache it changes
  nothing at all; on a miss whose fetch does not deliver a list it leaves the schedule
  slot unchanged; on a miss whose fetch delivers a list it stores that list with the
  expiry now + duration.
\<close>

theorem isHealthy_cache_effect:
  "cache_phoneData (snd (isHealthy cfg w now st)) = cache_phoneData st
   \<and> (cached (cache_schedules st) now \<noteq> None \<longrightarrow> snd (isHealthy cfg w now st) = st)
   \<and> (cached (cache_schedules st) now = None
        \<and> (\<not> jira_config_complete cfg \<or> (\<forall>vs. fetch_json (schedules_endpoint w) \<noteq> Inr (Some vs)))
        \<longrightarrow> cache_schedules (snd (isHealthy cfg w now st)) = cache_schedules st)
   \<and> (cached (cache_schedules st) now = None \<and> jira_config_complete cfg
        \<and> fetch_json (schedules_endpoint w) = Inr (Some vs)
        \<longrightarrow> cache_schedules (snd (isHealthy cfg w now st))
              = (cache_schedules st)\<lparr>data := Some vs,
                   expiry := Some (now + duration (cache_schedules st))\<rparr>)"
  by (auto simp: isHealthy_def getSchedules_def emit_def split: option.splits sum.splits if_splits)

theorem isHealthy_cache_effect_witness:
  "cached (cache_schedules state_after_first_call) 2000 \<noteq> None
   \<and> snd (isHealthy example_config example_world 2000 state_after_first_call)
       = state_after_first_call
   \<and> cache_phoneData (snd (isHealthy example_config example_world 1000 initial_state))
       = cache_phoneData initial_state
   \<and> cache_schedules (snd (isHealthy example_config world_roster_down 1000 initial_state))
       = cache_schedules initial_state
   \<and> cache_schedules (snd (isHealthy example_config example_world 1000 initial_state))
       = (cache_schedules initial_state)\<lparr>data := Some example_schedules,
            expiry := Some (1000 + duration (cache_schedules initial_state))\<rparr>"
proof -
  have fresh: "cached (cache_schedules state_after_first_call) 2000 \<noteq> None"
    by code_simp
  have miss: "cached (cache_schedules initial_state) 1000 = None"
    by (simp add: cached_def initial_state_def)
  have cfg: "jira_config_complete example_config"
    by (simp add: jira_config_complete_def example_config_def truthy_def)
  have got: "fetch_json (schedules_endpoint example_world) = Inr (Some example_schedules)"
    by (simp add: fetch_json_def example_world_def ok_response_def)
  have down: "\<forall>vs. fetch_json (schedules_endpoint world_roster_down) \<noteq> Inr (Some vs)"
    by (simp add: fetch_json_def world_roster_down_def)
  have a: "snd (isHealthy example_config example_world 2000 state_after_first_call)
             = state_after_first_call"
    using isHealthy_cache_effect [of example_config example_world 2000 state_after_first_call]
      fresh by blast
  have b: "cache_phoneData (snd (isHealthy example_config example_world 1000 initial_state))
             = cache_phoneData initial_state
           \<and> cache_schedules (snd (isHealthy example_config example_world 1000 initial_state))
             = (cache_schedules initial_state)\<lparr>data := Some example_schedules,
                  expiry := Some (1000 + duration (cache_schedules initial_state))\<rparr>"
    using isHealthy_cache_effect [of example_config example_world 1000 initial_state
        example_schedules] miss cfg got by blast
  have c: "cache_schedules (snd (isHealthy example_config world_roster_down 1000 initial_state))
             = cache_schedules initial_state"
    using isHealthy_cache_effect [of example_config world_roster_down 1000 initial_state]
      miss down by blast
  from fresh a b c show ?thesis by blast
qed

theorem isHealthy_cache_counterexample:
  "data (cache_schedules initial_state) = None
   \<and> expiry (cache_schedules initial_state) = None
   \<and> data (cache_schedules (snd (isHealthy example_config example_world 1000 initial_state)))
       = Some example_schedules
   \<and> expiry (cache_schedules (snd (isHealthy example_config example_world 1000 initial_state)))
       = Some 901000
   \<and> cache_schedules (snd (isHealthy example_config example_world 1000 initial_state))
       \<noteq> cache_schedules initial_state"
  by code_simp

text \<open>
  C9 (as amended). After any sequence of calls of the exported functions from the initial
  state, the phoneData slot of direct-client.js has neither data nor expiry, and only
  clearCaches can write the slot at all. getPhoneNumberByEmail never reads a cache; what
  it sends depends on the configuration and the server only: nothing when the credential
  or database-name check throws, a connect alone when the connect fails, and otherwise a
  connect, the query for the email and the close of the pool, on every exit path. The
  claim's "every lookup opens a connection and queries" leaves out the first two cases.
\<close>

theorem phoneData_never_populated:
  "data (cache_phoneData (run_calls cfg calls initial_state)) = None
   \<and> expiry (cache_phoneData (run_calls cfg calls initial_state)) = None
   \<and> (cache_phoneData (run_call cfg w now c st) \<noteq> cache_phoneData st \<longrightarrow> c = CallClearCaches)
   \<and> upstream (snd (getPhoneNumberByEmail cfg w em st)) = upstream st @
       (if \<not> sql_credentials_ok cfg \<or> \<not> truthy (sql_database cfg) then []
        else if sql_connect w \<noteq> None then [SqlConnect]
        else [SqlConnect, SqlQuery em, SqlClose])"
proof -
  have "phoneData_empty initial_state" by (simp add: phoneData_empty_def initial_state_def)
  then have a: "phoneData_empty (run_calls cfg calls initial_state)" by (rule run_calls_phoneData)
  have b: "upstream (snd (getPhoneNumberByEmail cfg w em st)) = upstream st @
       (if \<not> sql_credentials_ok cfg \<or> \<not> truthy (sql_database cfg) then []
        else if sql_connect w \<noteq> None then [SqlConnect]
        else [SqlConnect, SqlQuery em, SqlClose])"
    by (auto simp: getPhoneNumberByEmail_def emit_def Let_def split: option.splits sum.splits)
  from a b run_call_phoneData_written [of cfg w now c st] show ?thesis
    by (simp add: phoneData_empty_def)
qed

theorem phoneData_never_populated_witness:
  "data (cache_phoneData (run_calls example_config
      [(example_world, 1000, CallGetTeamOnCallPhoneNumber ''Help-Desk-schedule''),
       (example_world, 2000, CallIsHealthy),
       (example_world, 3000, CallClearCaches),
       (world_query_fails, 4000, CallGetPhoneNumberByEmail ''a@x.com'')] initial_state)) = None
   \<and> sql_credentials_ok example_config \<and> truthy (sql_database example_config)
   \<and> sql_connect world_query_fails = None
   \<and> upstream (snd (getPhoneNumberByEmail example_config world_query_fails ''a@x.com''
                      state_after_first_call))
       = upstream state_after_first_call @ [SqlConnect, SqlQuery ''a@x.com'', SqlClose]"
proof -
  have cfg: "sql_credentials_ok example_config" "truthy (sql_database example_config)"
    by (simp_all add: sql_credentials_ok_def example_config_def truthy_def)
  have srv: "sql_connect world_query_fails = None"
    by (simp add: world_query_fails_def example_world_def)
  note main = phoneData_never_populated [of example_config
      "[(example_world, 1000, CallGetTeamOnCallPhoneNumber ''Help-Desk-schedule''),
        (example_world, 2000, CallIsHealthy),
        (example_world, 3000, CallClearCaches),
        (world_query_fails, 4000, CallGetPhoneNumberByEmail ''a@x.com'')]"
      world_query_fails 0 CallIsHealthy state_after_first_call "''a@x.com''"]
  from main cfg srv show ?thesis by simp
qed

theorem lookup_without_connection_counterexample:
  "fst (getPhoneNumberByEmail config_without_database example_world ''a@x.com'' initial_state)
     = Inl (Error ''SQL database name is required'')
   \<and> upstream (snd (getPhoneNumberByEmail config_without_database example_world ''a@x.com''
                      initial_state)) = []
   \<and> upstream (snd (getPhoneNumberByEmail example_config world_connect_fails ''a@x.com''
                      initial_state)) = [SqlConnect]"
  by code_simp

text \<open>
  C10. isHealthy returns true only when the schedule list it gets, from the fresh cache
  or from the fetch, is not empty. A cached or fetched empty list gives false, and so do
  a fetch that throws (rejected request, response that is not ok, body that is no JSON)
  and an incomplete configuration: the error is not propagated.
\<close>

theorem isHealthy_spec:
  "(fst (isHealthy cfg w now st) \<longrightarrow>
      (\<exists>d. d \<noteq> [] \<and> (cached (cache_schedules st) now = Some d
                       \<or> (cached (cache_schedules st) now = None
                          \<and> fetch_json (schedules_endpoint w) = Inr (Some d)))))
   \<and> (cached (cache_schedules st) now = Some [] \<longrightarrow> \<not> fst (isHealthy cfg w now st))
   \<and> (cached (cache_schedules st) now = None \<and> fetch_json (schedules_endpoint w) = Inr (Some [])
        \<longrightarrow> \<not> fst (isHealthy cfg w now st))
   \<and> (cached (cache_schedules st) now = None \<and> fetch_json (schedules_endpoint w) = Inl e
        \<longrightarrow> \<not> fst (isHealthy cfg w now st))
   \<and> (cached (cache_schedules st) now = None \<and> \<not> jira_config_complete cfg
        \<longrightarrow> \<not> fst (isHealthy cfg w now st))"
  by (auto simp: isHealthy_def getSchedules_def split: option.splits sum.splits if_splits)

theorem isHealthy_spec_witness:
  "cached (cache_schedules initial_state) 1000 = None
   \<and> fetch_json (schedules_endpoint world_empty_roster) = Inr (Some [])
   \<and> \<not> fst (isHealthy example_config world_empty_roster 1000 initial_state)
   \<and> fetch_json (schedules_endpoint world_roster_down)
       = Inl (Error ''HTTP error 503: Service Unavailable'')
   \<and> \<not> fst (isHealthy example_config world_roster_down 1000 initial_state)
   \<and> fst (isHealthy example_config example_world 1000 initial_state)"
proof -
  have miss: "cached (cache_schedules initial_state) 1000 = None"
    by (simp add: cached_def initial_state_def)
  have empty: "fetch_json (schedules_endpoint world_empty_roster) = Inr (Some [])"
    by (simp add: fetch_json_def world_empty_roster_def ok_response_def)
  have down: "fetch_json (schedules_endpoint world_roster_down)
                = Inl (Error ''HTTP error 503: Service Unavailable'')"
    by code_simp
  have a: "\<not> fst (isHealthy example_config world_empty_roster 1000 initial_state)"
    using isHealthy_spec [of example_config world_empty_roster 1000 initial_state] miss empty
    by blast
  have b: "\<not> fst (isHealthy example_config world_roster_down 1000 initial_state)"
    using isHealthy_spec [of example_config world_roster_down 1000 initial_state
        "Error ''HTTP error 503: Service Unavailable''"] miss down
    by blast
  have c: "fst (isHealthy example_config example_world 1000 initial_state)"
    by code_simp
  from miss empty down a b c show ?thesis by blast
qed

end
